theory Spec2Isabelle
  imports Main "HOL-Library.Sublist"
begin

section \<open>The request as auth-handler.go reads it\<close>

text \<open>
  The handler reads four things of a \<^verbatim>\<open>*http.Request\<close>: \<^verbatim>\<open>r.Method\<close>,
  \<^verbatim>\<open>r.Header\<close> (a \<^verbatim>\<open>map[string][]string\<close>), \<^verbatim>\<open>r.URL.Query()\<close> (the parsed query,
  again a \<^verbatim>\<open>map[string][]string\<close>) and \<^verbatim>\<open>r.URL.Path\<close>. The body is never read; it is
  a field here so that statements can vary it.
\<close>

record URL =
  Path :: string
  Query :: "string \<rightharpoonup> string list"

record Request =
  Method :: string
  Url :: URL
  Header :: "string \<rightharpoonup> string list"
  Body :: string

text \<open>
  \<^verbatim>\<open>Header.Get(key)\<close> of net/http: the first value stored under the key, the empty
  string when the key is absent or holds no value. The two keys the handler asks for,
  \<^verbatim>\<open>Authorization\<close> and \<^verbatim>\<open>Content-Type\<close>, are already in canonical MIME form, so the
  canonicalisation \<^verbatim>\<open>Get\<close> applies to its argument leaves them as they are.
\<close>

definition Get :: "(string \<rightharpoonup> string list) \<Rightarrow> string \<Rightarrow> string" where
  "Get h key = (case h key of None \<Rightarrow> [] | Some vs \<Rightarrow> (case vs of [] \<Rightarrow> [] | v # _ \<Rightarrow> v))"

text \<open>\<^verbatim>\<open>strings.HasPrefix(s, prefix)\<close>: \<^verbatim>\<open>len(s) >= len(prefix) && s[0:len(prefix)] == prefix\<close>.\<close>

definition HasPrefix :: "string \<Rightarrow> string \<Rightarrow> bool" where
  "HasPrefix s p = (length p \<le> length s \<and> take (length p) s = p)"

text \<open>\<^verbatim>\<open>strings.Contains(s, substr)\<close>: \<^verbatim>\<open>substr\<close> occurs at some position of \<^verbatim>\<open>s\<close>.\<close>

fun Contains :: "string \<Rightarrow> string \<Rightarrow> bool" where
  "Contains [] sub = (sub = [])"
| "Contains (c # cs) sub = (HasPrefix (c # cs) sub \<or> Contains cs sub)"

definition signV4Algorithm :: string where
  "signV4Algorithm = ''AWS4-HMAC-SHA256''"

definition jwtAlgorithm :: string where
  "jwtAlgorithm = ''Bearer''"

section \<open>The predicates and the classifier\<close>

definition isRequestJWT :: "Request \<Rightarrow> bool" where
  "isRequestJWT r =
     (if Header r ''Authorization'' \<noteq> None
      then (if HasPrefix (Get (Header r) ''Authorization'') jwtAlgorithm then True else False)
      else False)"

definition isRequestSignatureV4 :: "Request \<Rightarrow> bool" where
  "isRequestSignatureV4 r =
     (if Header r ''Authorization'' \<noteq> None
      then (if HasPrefix (Get (Header r) ''Authorization'') signV4Algorithm then True else False)
      else False)"

definition isRequestPresignedSignatureV4 :: "Request \<Rightarrow> bool" where
  "isRequestPresignedSignatureV4 r =
     (if Query (Url r) ''X-Amz-Credential'' \<noteq> None then True else False)"

definition isRequestPostPolicySignatureV4 :: "Request \<Rightarrow> bool" where
  "isRequestPostPolicySignatureV4 r =
     (if Header r ''Content-Type'' \<noteq> None
      then (if Contains (Get (Header r) ''Content-Type'') ''multipart/form-data''
               \<and> Method r = ''POST''
            then True else False)
      else False)"

definition isRequestAnonymous :: "Request \<Rightarrow> bool" where
  "isRequestAnonymous r =
     (if isRequestJWT r \<or> isRequestSignatureV4 r \<or> isRequestPresignedSignatureV4 r
         \<or> isRequestPostPolicySignatureV4 r
      then False else True)"

datatype authType =
    authTypeUnknown
  | authTypeAnonymous
  | authTypePresigned
  | authTypePostPolicy
  | authTypeSigned
  | authTypeJWT

definition getRequestAuthType :: "Request \<Rightarrow> authType" where
  "getRequestAuthType r =
     (if isRequestSignatureV4 r then authTypeSigned
      else if isRequestPresignedSignatureV4 r then authTypePresigned
      else if isRequestJWT r then authTypeJWT
      else if isRequestPostPolicySignatureV4 r then authTypePostPolicy
      else if Header r ''Authorization'' = None then authTypeAnonymous
      else authTypeUnknown)"

section \<open>Error codes and the calls the handler makes\<close>

text \<open>
  Modelled from the spec: the error-code constants \<^verbatim>\<open>None\<close>, \<^verbatim>\<open>SignatureDoesNotMatch\<close>,
  \<^verbatim>\<open>InternalError\<close>, \<^verbatim>\<open>AccessDenied\<close> and \<^verbatim>\<open>SignatureVersionNotSupported\<close> are declared
  in a file of the repository that is not under src/. The spec gives them as the closed
  enumeration ErrorCode; \<^verbatim>\<open>None\<close> is written \<open>NoneError\<close> here, the name \<open>None\<close> being
  the option type's.
\<close>

datatype ErrorCode =
    NoneError
  | SignatureDoesNotMatch
  | InternalError
  | AccessDenied
  | SignatureVersionNotSupported

text \<open>\<^verbatim>\<open>http.StatusUnauthorized\<close> of net/http.\<close>

definition StatusUnauthorized :: nat where
  "StatusUnauthorized = 401"

text \<open>
  What a function of the file does besides returning a value is a call on one of its
  collaborators: the signature verifier, the token verifier, the logger, the response
  writer, the error-response serializer and the downstream handler. A run is modelled
  by the list of these calls, in the order the source makes them.
\<close>

datatype effect =
    Call_SetHTTPRequestToVerify Request
  | Call_DoesSignatureMatch string
  | Call_DoesPresignedSignatureMatch
  | Call_errorIf string
  | Call_isJWTReqAuthenticated Request
  | Call_handler_ServeHTTP Request
  | Call_WriteHeader nat
  | Call_writeErrorResponse ErrorCode string

fun is_forward :: "effect \<Rightarrow> bool" where
  "is_forward (Call_handler_ServeHTTP _) = True"
| "is_forward _ = False"

fun is_verifier_call :: "effect \<Rightarrow> bool" where
  "is_verifier_call (Call_SetHTTPRequestToVerify _) = True"
| "is_verifier_call (Call_DoesSignatureMatch _) = True"
| "is_verifier_call Call_DoesPresignedSignatureMatch = True"
| "is_verifier_call (Call_isJWTReqAuthenticated _) = True"
| "is_verifier_call _ = False"

fun is_signature_match_call :: "effect \<Rightarrow> bool" where
  "is_signature_match_call (Call_DoesSignatureMatch _) = True"
| "is_signature_match_call Call_DoesPresignedSignatureMatch = True"
| "is_signature_match_call _ = False"

text \<open>The payload hashes a run handed to \<^verbatim>\<open>DoesSignatureMatch\<close>, in order.\<close>

fun payload_hints :: "effect list \<Rightarrow> string list" where
  "payload_hints [] = []"
| "payload_hints (Call_DoesSignatureMatch h # es) = h # payload_hints es"
| "payload_hints (_ # es) = payload_hints es"

section \<open>Signature verification\<close>

text \<open>
  Modelled from the spec: the type \<^verbatim>\<open>signature4.Sign\<close> and its methods live in
  pkg/s3/signature4, which is not under src/. The spec gives the verifier as an external
  collaborator with two operations on a request, the signed one taking a payload-hash
  hint; the source reads each result as a pair of a boolean and an error that may be nil.
  \<^verbatim>\<open>SetHTTPRequestToVerify\<close> binds the request the two operations then look at.
\<close>

record 'e Sign =
  DoesSignatureMatch :: "Request \<Rightarrow> string \<Rightarrow> bool \<times> 'e option"
  DoesPresignedSignatureMatch :: "Request \<Rightarrow> bool \<times> 'e option"

text \<open>
  \<^verbatim>\<open>sha256.Sum256\<close> and \<^verbatim>\<open>hex.EncodeToString\<close> are functions of Go's standard library;
  they are parameters of the model. The result is the returned pair and the calls made.
\<close>

definition isSignV4ReqAuthenticated ::
  "(string \<Rightarrow> string) \<Rightarrow> (string \<Rightarrow> string) \<Rightarrow> 'e Sign \<Rightarrow> Request
     \<Rightarrow> (bool \<times> ErrorCode) \<times> effect list" where
  "isSignV4ReqAuthenticated Sum256 EncodeToString sign r =
     (let t0 = [Call_SetHTTPRequestToVerify r] in
      if isRequestSignatureV4 r then
        (let dummyPayload = Sum256 [];
             hint = EncodeToString dummyPayload;
             t1 = t0 @ [Call_DoesSignatureMatch hint]
         in case DoesSignatureMatch sign r hint of
              (ok, Some err) \<Rightarrow>
                ((False, InternalError), t1 @ [Call_errorIf ''Signature verification failed.''])
            | (ok, None) \<Rightarrow>
                if \<not> ok then ((False, SignatureDoesNotMatch), t1)
                else ((ok, NoneError), t1))
      else if isRequestPresignedSignatureV4 r then
        (let t1 = t0 @ [Call_DoesPresignedSignatureMatch]
         in case DoesPresignedSignatureMatch sign r of
              (ok, Some err) \<Rightarrow>
                ((False, InternalError),
                 t1 @ [Call_errorIf ''Presigned signature verification failed.''])
            | (ok, None) \<Rightarrow>
                if \<not> ok then ((False, SignatureDoesNotMatch), t1)
                else ((ok, NoneError), t1))
      else ((False, AccessDenied), t0))"

section \<open>The dispatch middleware\<close>

text \<open>
  \<^verbatim>\<open>authHandler.ServeHTTP\<close>. The token verifier \<^verbatim>\<open>isJWTReqAuthenticated\<close> is a function
  of the repository that is not under src/; it is a parameter, a predicate on the
  request. The downstream handler \<^verbatim>\<open>a.handler\<close> is opaque: calling it is one entry of
  the run, carrying the request handed on.
\<close>

definition ServeHTTP :: "(Request \<Rightarrow> bool) \<Rightarrow> Request \<Rightarrow> effect list" where
  "ServeHTTP isJWTReqAuthenticated r =
     (case getRequestAuthType r of
        authTypeAnonymous \<Rightarrow> [Call_handler_ServeHTTP r]
      | authTypePresigned \<Rightarrow> [Call_handler_ServeHTTP r]
      | authTypeSigned \<Rightarrow> [Call_handler_ServeHTTP r]
      | authTypePostPolicy \<Rightarrow> [Call_handler_ServeHTTP r]
      | authTypeJWT \<Rightarrow>
          (if \<not> isJWTReqAuthenticated r
           then [Call_isJWTReqAuthenticated r, Call_WriteHeader StatusUnauthorized]
           else [Call_isJWTReqAuthenticated r, Call_handler_ServeHTTP r])
      | authTypeUnknown \<Rightarrow>
          [Call_writeErrorResponse SignatureVersionNotSupported (Path (Url r))])"

section \<open>The resolution order as the spec words it\<close>

text \<open>
  The spec describes the classifier as an ordered list of (predicate, result) pairs,
  evaluated in sequence, the first match winning, with a result for no match.
\<close>

fun first_match :: "(('a \<Rightarrow> bool) \<times> 'b) list \<Rightarrow> 'b \<Rightarrow> 'a \<Rightarrow> 'b" where
  "first_match [] d x = d"
| "first_match ((p, v) # rules) d x = (if p x then v else first_match rules d x)"

definition has_no_authorization_header :: "Request \<Rightarrow> bool" where
  "has_no_authorization_header r = (Header r ''Authorization'' = None)"

definition resolution_order :: "((Request \<Rightarrow> bool) \<times> authType) list" where
  "resolution_order =
     [(isRequestSignatureV4, authTypeSigned),
      (isRequestPresignedSignatureV4, authTypePresigned),
      (isRequestJWT, authTypeJWT),
      (isRequestPostPolicySignatureV4, authTypePostPolicy),
      (has_no_authorization_header, authTypeAnonymous)]"

section \<open>Concrete requests and collaborators\<close>

definition plain_get :: Request where
  "plain_get =
     \<lparr>Method = ''GET'', Url = \<lparr>Path = ''/bucket/object'', Query = Map.empty\<rparr>,
      Header = Map.empty, Body = []\<rparr>"

definition signed_and_presigned :: Request where
  "signed_and_presigned =
     \<lparr>Method = ''GET'',
      Url = \<lparr>Path = ''/bucket/object'',
             Query = [''X-Amz-Credential'' \<mapsto> [''AKIDEXAMPLE/20150830/us-east-1/s3/aws4_request'']]\<rparr>,
      Header = [''Authorization'' \<mapsto> [''AWS4-HMAC-SHA256 Credential=AKIDEXAMPLE'']],
      Body = []\<rparr>"

definition signed_put :: Request where
  "signed_put =
     \<lparr>Method = ''PUT'', Url = \<lparr>Path = ''/bucket/object'', Query = Map.empty\<rparr>,
      Header = [''Authorization'' \<mapsto> [''AWS4-HMAC-SHA256 Credential=AKIDEXAMPLE'']],
      Body = ''not the empty payload''\<rparr>"

definition presigned_get :: Request where
  "presigned_get =
     \<lparr>Method = ''GET'',
      Url = \<lparr>Path = ''/bucket/object'',
             Query = [''X-Amz-Credential'' \<mapsto> [''AKIDEXAMPLE/20150830/us-east-1/s3/aws4_request'']]\<rparr>,
      Header = Map.empty, Body = []\<rparr>"

definition bearer_get :: Request where
  "bearer_get =
     \<lparr>Method = ''GET'', Url = \<lparr>Path = ''/bucket/object'', Query = Map.empty\<rparr>,
      Header = [''Authorization'' \<mapsto> [''Bearer abc.def.ghi'']], Body = []\<rparr>"

definition form_post :: Request where
  "form_post =
     \<lparr>Method = ''POST'', Url = \<lparr>Path = ''/bucket'', Query = Map.empty\<rparr>,
      Header = [''Content-Type'' \<mapsto> [''multipart/form-data; boundary=xyz'']],
      Body = []\<rparr>"

definition basic_get :: Request where
  "basic_get =
     \<lparr>Method = ''GET'', Url = \<lparr>Path = ''/bucket/object'', Query = Map.empty\<rparr>,
      Header = [''Authorization'' \<mapsto> [''Basic xyz'']], Body = []\<rparr>"

definition basic_form_post :: Request where
  "basic_form_post =
     \<lparr>Method = ''POST'', Url = \<lparr>Path = ''/bucket'', Query = Map.empty\<rparr>,
      Header = [''Authorization'' \<mapsto> [''Basic xyz''],
                ''Content-Type'' \<mapsto> [''multipart/form-data; boundary=xyz'']],
      Body = []\<rparr>"

text \<open>Verifiers that answer the same whatever they are asked.\<close>

definition const_sign :: "bool \<times> string option \<Rightarrow> string Sign" where
  "const_sign res =
     \<lparr>DoesSignatureMatch = (\<lambda>r h. res), DoesPresignedSignatureMatch = (\<lambda>r. res)\<rparr>"

definition accept_token :: "Request \<Rightarrow> bool" where
  "accept_token r = True"

definition reject_token :: "Request \<Rightarrow> bool" where
  "reject_token r = False"

text \<open>Stand-ins for the two library functions, for concrete runs.\<close>

definition sum_stub :: "string \<Rightarrow> string" where
  "sum_stub bs = ''digest:'' @ bs"

definition hex_stub :: "string \<Rightarrow> string" where
  "hex_stub bs = ''hex:'' @ bs"

section \<open>The library functions\<close>

lemma HasPrefix_iff_prefix: "HasPrefix s p \<longleftrightarrow> prefix p s"
proof
  assume "HasPrefix s p"
  then have "take (length p) s = p"
    by (simp add: HasPrefix_def)
  then show "prefix p s"
    by (metis take_is_prefix)
next
  assume "prefix p s"
  then obtain zs where "s = p @ zs"
    by (auto simp: prefix_def)
  then show "HasPrefix s p"
    by (simp add: HasPrefix_def)
qed

lemma Contains_iff_sublist: "Contains s sub \<longleftrightarrow> sublist sub s"
proof (induction s)
  case Nil
  show ?case by auto
next
  case (Cons c cs)
  show ?case
    by (simp add: Cons.IH HasPrefix_iff_prefix sublist_Cons_right)
qed

lemma Get_present: "h key = Some (v # vs) \<Longrightarrow> Get h key = v"
  by (simp add: Get_def)

lemma Get_absent: "h key = None \<Longrightarrow> Get h key = []"
  by (simp add: Get_def)

section \<open>The predicates in terms of the request\<close>

lemma isRequestSignatureV4_iff:
  "isRequestSignatureV4 r \<longleftrightarrow>
     (\<exists>v vs. Header r ''Authorization'' = Some (v # vs) \<and> prefix ''AWS4-HMAC-SHA256'' v)"
  by (auto simp: isRequestSignatureV4_def signV4Algorithm_def Get_def HasPrefix_iff_prefix
      split: option.splits list.splits)

lemma isRequestJWT_iff:
  "isRequestJWT r \<longleftrightarrow>
     (\<exists>v vs. Header r ''Authorization'' = Some (v # vs) \<and> prefix ''Bearer'' v)"
  by (auto simp: isRequestJWT_def jwtAlgorithm_def Get_def HasPrefix_iff_prefix
      split: option.splits list.splits)

lemma isRequestPresignedSignatureV4_iff:
  "isRequestPresignedSignatureV4 r \<longleftrightarrow> ''X-Amz-Credential'' \<in> dom (Query (Url r))"
  by (auto simp: isRequestPresignedSignatureV4_def)

lemma isRequestPostPolicySignatureV4_iff:
  "isRequestPostPolicySignatureV4 r \<longleftrightarrow>
     Method r = ''POST'' \<and>
     (\<exists>v vs. Header r ''Content-Type'' = Some (v # vs) \<and> sublist ''multipart/form-data'' v)"
  by (auto simp: isRequestPostPolicySignatureV4_def Get_def Contains_iff_sublist
      split: option.splits list.splits)

lemma no_header_not_signed: "Header r ''Authorization'' = None \<Longrightarrow> \<not> isRequestSignatureV4 r"
  by (simp add: isRequestSignatureV4_def)

lemma no_header_not_jwt: "Header r ''Authorization'' = None \<Longrightarrow> \<not> isRequestJWT r"
  by (simp add: isRequestJWT_def)

section \<open>The classifier\<close>

text \<open>
  Claim C1. For every request, \<open>getRequestAuthType\<close> is the first match of the ordered list
  has-v4-signature-header, has-presigned-query, has-bearer-header, has-form-policy-body,
  has-no-authorization-header (with \<open>authTypeUnknown\<close> when none matches). In particular a
  request whose \<^verbatim>\<open>Authorization\<close> header begins with \<^verbatim>\<open>AWS4-HMAC-SHA256\<close> and whose query
  has \<^verbatim>\<open>X-Amz-Credential\<close> is classified \<open>authTypeSigned\<close>. The header's value is the first
  one stored under the key, the one \<^verbatim>\<open>Header.Get\<close> reads.
\<close>

theorem getRequestAuthType_first_match:
  "getRequestAuthType r = first_match resolution_order authTypeUnknown r \<and>
   (Header r ''Authorization'' = Some (v # vs) \<and> prefix ''AWS4-HMAC-SHA256'' v \<and>
    Query (Url r) ''X-Amz-Credential'' = Some c
      \<longrightarrow> getRequestAuthType r = authTypeSigned)"
proof
  show "getRequestAuthType r = first_match resolution_order authTypeUnknown r"
    by (simp add: getRequestAuthType_def resolution_order_def has_no_authorization_header_def)
next
  show "Header r ''Authorization'' = Some (v # vs) \<and> prefix ''AWS4-HMAC-SHA256'' v \<and>
        Query (Url r) ''X-Amz-Credential'' = Some c
          \<longrightarrow> getRequestAuthType r = authTypeSigned"
  proof
    assume h: "Header r ''Authorization'' = Some (v # vs) \<and> prefix ''AWS4-HMAC-SHA256'' v \<and>
               Query (Url r) ''X-Amz-Credential'' = Some c"
    then have "isRequestSignatureV4 r"
      by (auto simp: isRequestSignatureV4_iff)
    then show "getRequestAuthType r = authTypeSigned"
      by (simp add: getRequestAuthType_def)
  qed
qed

theorem getRequestAuthType_first_match_witness:
  "Header signed_and_presigned ''Authorization'' = Some [''AWS4-HMAC-SHA256 Credential=AKIDEXAMPLE''] \<and>
   prefix ''AWS4-HMAC-SHA256'' ''AWS4-HMAC-SHA256 Credential=AKIDEXAMPLE'' \<and>
   Query (Url signed_and_presigned) ''X-Amz-Credential''
     = Some [''AKIDEXAMPLE/20150830/us-east-1/s3/aws4_request''] \<and>
   getRequestAuthType signed_and_presigned = authTypeSigned \<and>
   first_match resolution_order authTypeUnknown signed_and_presigned = authTypeSigned"
proof -
  have h: "Header signed_and_presigned ''Authorization''
             = Some [''AWS4-HMAC-SHA256 Credential=AKIDEXAMPLE''] \<and>
           prefix ''AWS4-HMAC-SHA256'' ''AWS4-HMAC-SHA256 Credential=AKIDEXAMPLE'' \<and>
           Query (Url signed_and_presigned) ''X-Amz-Credential''
             = Some [''AKIDEXAMPLE/20150830/us-east-1/s3/aws4_request'']"
    by (simp add: signed_and_presigned_def)
  note t = getRequestAuthType_first_match
    [of signed_and_presigned "''AWS4-HMAC-SHA256 Credential=AKIDEXAMPLE''" "[]"
        "[''AKIDEXAMPLE/20150830/us-east-1/s3/aws4_request'']"]
  from t h have s: "getRequestAuthType signed_and_presigned = authTypeSigned"
    by blast
  from t have "first_match resolution_order authTypeUnknown signed_and_presigned
                 = getRequestAuthType signed_and_presigned"
    by simp
  with s have "first_match resolution_order authTypeUnknown signed_and_presigned = authTypeSigned"
    by simp
  with h s show ?thesis
    by blast
qed

text \<open>
  Claim C2, as amended. For every request that lacks an \<^verbatim>\<open>Authorization\<close> header, does not
  satisfy the form-policy predicate and has no \<^verbatim>\<open>X-Amz-Credential\<close> query parameter,
  \<open>getRequestAuthType\<close> returns \<open>authTypeAnonymous\<close>.
\<close>

theorem getRequestAuthType_anonymous:
  "Header r ''Authorization'' = None \<Longrightarrow> \<not> isRequestPostPolicySignatureV4 r \<Longrightarrow>
   \<not> isRequestPresignedSignatureV4 r \<Longrightarrow> getRequestAuthType r = authTypeAnonymous"
  by (simp add: getRequestAuthType_def no_header_not_signed no_header_not_jwt)

theorem getRequestAuthType_anonymous_witness:
  "Header plain_get ''Authorization'' = None \<and> \<not> isRequestPostPolicySignatureV4 plain_get \<and>
   \<not> isRequestPresignedSignatureV4 plain_get \<and> getRequestAuthType plain_get = authTypeAnonymous"
proof -
  have h1: "Header plain_get ''Authorization'' = None"
    by (simp add: plain_get_def)
  have h2: "\<not> isRequestPostPolicySignatureV4 plain_get"
    by (simp add: plain_get_def isRequestPostPolicySignatureV4_def)
  have h3: "\<not> isRequestPresignedSignatureV4 plain_get"
    by (simp add: plain_get_def isRequestPresignedSignatureV4_def)
  show ?thesis
    using h1 h2 h3 getRequestAuthType_anonymous [OF h1 h2 h3] by simp
qed

text \<open>
  Claim C2, as stated, fails: a GET request with no headers at all and an
  \<^verbatim>\<open>X-Amz-Credential\<close> query parameter lacks the \<^verbatim>\<open>Authorization\<close> header and is no form
  post, yet it is classified \<open>authTypePresigned\<close>, the presigned-query predicate being tested
  before the header's absence.
\<close>

theorem getRequestAuthType_anonymous_counterexample:
  "Header presigned_get ''Authorization'' = None \<and>
   \<not> isRequestPostPolicySignatureV4 presigned_get \<and>
   getRequestAuthType presigned_get = authTypePresigned \<and>
   getRequestAuthType presigned_get \<noteq> authTypeAnonymous"
  by (simp add: presigned_get_def getRequestAuthType_def isRequestSignatureV4_def
      isRequestPresignedSignatureV4_def isRequestPostPolicySignatureV4_def)

text \<open>
  Claim C6. \<open>isRequestAnonymous\<close> is the negation of the disjunction of the bearer, V4-header,
  presigned-query and form-policy predicates; and for every request whose \<^verbatim>\<open>Authorization\<close>
  header is absent, \<open>isRequestAnonymous\<close> holds exactly when \<open>getRequestAuthType\<close> returns
  \<open>authTypeAnonymous\<close>.
\<close>

theorem isRequestAnonymous_agrees:
  "(isRequestAnonymous r \<longleftrightarrow>
      \<not> (isRequestJWT r \<or> isRequestSignatureV4 r \<or> isRequestPresignedSignatureV4 r
         \<or> isRequestPostPolicySignatureV4 r)) \<and>
   (Header r ''Authorization'' = None
      \<longrightarrow> (isRequestAnonymous r \<longleftrightarrow> getRequestAuthType r = authTypeAnonymous))"
proof
  show "isRequestAnonymous r \<longleftrightarrow>
          \<not> (isRequestJWT r \<or> isRequestSignatureV4 r \<or> isRequestPresignedSignatureV4 r
             \<or> isRequestPostPolicySignatureV4 r)"
    by (simp add: isRequestAnonymous_def)
next
  show "Header r ''Authorization'' = None
          \<longrightarrow> (isRequestAnonymous r \<longleftrightarrow> getRequestAuthType r = authTypeAnonymous)"
  proof
    assume h: "Header r ''Authorization'' = None"
    have "\<not> isRequestSignatureV4 r" and "\<not> isRequestJWT r"
      using h by (simp_all add: no_header_not_signed no_header_not_jwt)
    then show "isRequestAnonymous r \<longleftrightarrow> getRequestAuthType r = authTypeAnonymous"
      using h by (simp add: isRequestAnonymous_def getRequestAuthType_def)
  qed
qed

theorem isRequestAnonymous_agrees_witness:
  "Header plain_get ''Authorization'' = None \<and>
   isRequestAnonymous plain_get \<and> getRequestAuthType plain_get = authTypeAnonymous \<and>
   Header presigned_get ''Authorization'' = None \<and>
   \<not> isRequestAnonymous presigned_get \<and> getRequestAuthType presigned_get \<noteq> authTypeAnonymous"
proof -
  have h1: "Header plain_get ''Authorization'' = None"
    by (simp add: plain_get_def)
  have a1: "getRequestAuthType plain_get = authTypeAnonymous"
    by (simp add: plain_get_def getRequestAuthType_def isRequestSignatureV4_def
        isRequestPresignedSignatureV4_def isRequestJWT_def isRequestPostPolicySignatureV4_def)
  have h2: "Header presigned_get ''Authorization'' = None"
    by (simp add: presigned_get_def)
  have a2: "getRequestAuthType presigned_get \<noteq> authTypeAnonymous"
    by (simp add: presigned_get_def getRequestAuthType_def isRequestSignatureV4_def
        isRequestPresignedSignatureV4_def)
  from h1 a1 isRequestAnonymous_agrees [of plain_get]
  have b1: "isRequestAnonymous plain_get"
    by blast
  from h2 a2 isRequestAnonymous_agrees [of presigned_get]
  have b2: "\<not> isRequestAnonymous presigned_get"
    by blast
  from h1 a1 b1 h2 a2 b2 show ?thesis
    by blast
qed

text \<open>
  Claim C7, as amended. For every request that carries an \<^verbatim>\<open>Authorization\<close> header whose
  value starts with neither \<^verbatim>\<open>AWS4-HMAC-SHA256\<close> nor \<^verbatim>\<open>Bearer\<close>, that has no
  \<^verbatim>\<open>X-Amz-Credential\<close> query parameter and that does not satisfy the form-policy predicate,
  \<open>getRequestAuthType\<close> returns \<open>authTypeUnknown\<close>; and \<open>authTypeUnknown\<close> is never returned
  for a request whose \<^verbatim>\<open>Authorization\<close> header is absent.
\<close>

theorem getRequestAuthType_unknown:
  "(Header r ''Authorization'' \<noteq> None \<and>
    \<not> HasPrefix (Get (Header r) ''Authorization'') ''AWS4-HMAC-SHA256'' \<and>
    \<not> HasPrefix (Get (Header r) ''Authorization'') ''Bearer'' \<and>
    Query (Url r) ''X-Amz-Credential'' = None \<and>
    \<not> isRequestPostPolicySignatureV4 r
      \<longrightarrow> getRequestAuthType r = authTypeUnknown) \<and>
   (Header r ''Authorization'' = None \<longrightarrow> getRequestAuthType r \<noteq> authTypeUnknown)"
  by (simp add: getRequestAuthType_def isRequestSignatureV4_def isRequestJWT_def
      isRequestPresignedSignatureV4_def signV4Algorithm_def jwtAlgorithm_def)

theorem getRequestAuthType_unknown_witness:
  "Header basic_get ''Authorization'' \<noteq> None \<and>
   \<not> HasPrefix (Get (Header basic_get) ''Authorization'') ''AWS4-HMAC-SHA256'' \<and>
   \<not> HasPrefix (Get (Header basic_get) ''Authorization'') ''Bearer'' \<and>
   Query (Url basic_get) ''X-Amz-Credential'' = None \<and>
   \<not> isRequestPostPolicySignatureV4 basic_get \<and>
   getRequestAuthType basic_get = authTypeUnknown \<and>
   Header plain_get ''Authorization'' = None \<and>
   getRequestAuthType plain_get \<noteq> authTypeUnknown"
proof -
  have h: "Header basic_get ''Authorization'' \<noteq> None \<and>
           \<not> HasPrefix (Get (Header basic_get) ''Authorization'') ''AWS4-HMAC-SHA256'' \<and>
           \<not> HasPrefix (Get (Header basic_get) ''Authorization'') ''Bearer'' \<and>
           Query (Url basic_get) ''X-Amz-Credential'' = None \<and>
           \<not> isRequestPostPolicySignatureV4 basic_get"
    by (simp add: basic_get_def Get_def HasPrefix_def isRequestPostPolicySignatureV4_def)
  have g: "Header plain_get ''Authorization'' = None"
    by (simp add: plain_get_def)
  from h getRequestAuthType_unknown [of basic_get]
  have a: "getRequestAuthType basic_get = authTypeUnknown"
    by blast
  from g getRequestAuthType_unknown [of plain_get]
  have b: "getRequestAuthType plain_get \<noteq> authTypeUnknown"
    by blast
  from h g a b show ?thesis
    by blast
qed

text \<open>
  Claim C7, as stated, fails: a POST request with \<^verbatim>\<open>Authorization: Basic xyz\<close>, a
  \<^verbatim>\<open>Content-Type\<close> of \<^verbatim>\<open>multipart/form-data\<close> and no query parameter is classified
  \<open>authTypePostPolicy\<close>, the form-policy predicate being tested before the fallback.
\<close>

theorem getRequestAuthType_unknown_counterexample:
  "Header basic_form_post ''Authorization'' = Some [''Basic xyz''] \<and>
   Get (Header basic_form_post) ''Authorization'' = ''Basic xyz'' \<and>
   \<not> HasPrefix ''Basic xyz'' ''AWS4-HMAC-SHA256'' \<and>
   \<not> HasPrefix ''Basic xyz'' ''Bearer'' \<and>
   Query (Url basic_form_post) ''X-Amz-Credential'' = None \<and>
   getRequestAuthType basic_form_post = authTypePostPolicy \<and>
   getRequestAuthType basic_form_post \<noteq> authTypeUnknown"
  by (simp add: basic_form_post_def Get_def HasPrefix_def getRequestAuthType_def
      isRequestSignatureV4_def isRequestJWT_def isRequestPresignedSignatureV4_def
      isRequestPostPolicySignatureV4_def signV4Algorithm_def jwtAlgorithm_def)

section \<open>The dispatch middleware\<close>

lemma classify_plain_get: "getRequestAuthType plain_get = authTypeAnonymous"
  by (simp add: plain_get_def getRequestAuthType_def isRequestSignatureV4_def
      isRequestPresignedSignatureV4_def isRequestJWT_def isRequestPostPolicySignatureV4_def)

lemma classify_presigned_get: "getRequestAuthType presigned_get = authTypePresigned"
  by (simp add: presigned_get_def getRequestAuthType_def isRequestSignatureV4_def
      isRequestPresignedSignatureV4_def)

lemma classify_signed_put: "getRequestAuthType signed_put = authTypeSigned"
  by (simp add: signed_put_def getRequestAuthType_def isRequestSignatureV4_def
      signV4Algorithm_def Get_def HasPrefix_def)

lemma classify_form_post: "getRequestAuthType form_post = authTypePostPolicy"
  by (simp add: form_post_def getRequestAuthType_def isRequestSignatureV4_def
      isRequestPresignedSignatureV4_def isRequestJWT_def isRequestPostPolicySignatureV4_def
      Get_def HasPrefix_def)

lemma classify_bearer_get: "getRequestAuthType bearer_get = authTypeJWT"
  by (simp add: bearer_get_def getRequestAuthType_def isRequestSignatureV4_def
      isRequestPresignedSignatureV4_def isRequestJWT_def signV4Algorithm_def jwtAlgorithm_def
      Get_def HasPrefix_def)

lemma classify_basic_get: "getRequestAuthType basic_get = authTypeUnknown"
  by (simp add: basic_get_def getRequestAuthType_def isRequestSignatureV4_def
      isRequestPresignedSignatureV4_def isRequestJWT_def isRequestPostPolicySignatureV4_def
      signV4Algorithm_def jwtAlgorithm_def Get_def HasPrefix_def)

text \<open>
  Claim C3. For every request classified \<open>authTypeJWT\<close>, \<open>ServeHTTP\<close> calls the downstream
  handler if and only if the token verifier returns true; when it returns false, the only
  call on the response is \<^verbatim>\<open>WriteHeader(401)\<close> (no body is written) and the downstream
  handler is not called.
\<close>

theorem ServeHTTP_token_gate:
  "getRequestAuthType r = authTypeJWT \<Longrightarrow>
     (list_ex is_forward (ServeHTTP verifyToken r) \<longleftrightarrow> verifyToken r) \<and>
     (verifyToken r \<longrightarrow>
        ServeHTTP verifyToken r = [Call_isJWTReqAuthenticated r, Call_handler_ServeHTTP r]) \<and>
     (\<not> verifyToken r \<longrightarrow>
        ServeHTTP verifyToken r = [Call_isJWTReqAuthenticated r, Call_WriteHeader 401])"
  by (simp add: ServeHTTP_def StatusUnauthorized_def)

theorem ServeHTTP_token_gate_witness:
  "getRequestAuthType bearer_get = authTypeJWT \<and>
   \<not> reject_token bearer_get \<and>
   ServeHTTP reject_token bearer_get
     = [Call_isJWTReqAuthenticated bearer_get, Call_WriteHeader 401] \<and>
   \<not> list_ex is_forward (ServeHTTP reject_token bearer_get) \<and>
   accept_token bearer_get \<and>
   ServeHTTP accept_token bearer_get
     = [Call_isJWTReqAuthenticated bearer_get, Call_handler_ServeHTTP bearer_get] \<and>
   list_ex is_forward (ServeHTTP accept_token bearer_get)"
proof -
  note c = classify_bearer_get
  have n: "\<not> reject_token bearer_get"
    by (simp add: reject_token_def)
  have y: "accept_token bearer_get"
    by (simp add: accept_token_def)
  note tn = ServeHTTP_token_gate [OF c, of reject_token]
  note ty = ServeHTTP_token_gate [OF c, of accept_token]
  from tn n have n1: "ServeHTTP reject_token bearer_get
                        = [Call_isJWTReqAuthenticated bearer_get, Call_WriteHeader 401]"
    by blast
  from tn n have n2: "\<not> list_ex is_forward (ServeHTTP reject_token bearer_get)"
    by blast
  from ty y have y1: "ServeHTTP accept_token bearer_get
                        = [Call_isJWTReqAuthenticated bearer_get, Call_handler_ServeHTTP bearer_get]"
    by blast
  from ty y have y2: "list_ex is_forward (ServeHTTP accept_token bearer_get)"
    by blast
  from c n n1 n2 y y1 y2 show ?thesis
    by blast
qed

text \<open>
  Claim C4. For every request classified \<open>authTypeUnknown\<close>, \<open>ServeHTTP\<close> makes one call
  only, \<^verbatim>\<open>writeErrorResponse\<close> with \<open>SignatureVersionNotSupported\<close> and the request's path:
  the downstream handler is not called and no verifier is called.
\<close>

theorem ServeHTTP_unknown_rejected:
  "getRequestAuthType r = authTypeUnknown \<Longrightarrow>
     ServeHTTP verifyToken r
       = [Call_writeErrorResponse SignatureVersionNotSupported (Path (Url r))] \<and>
     \<not> list_ex is_forward (ServeHTTP verifyToken r) \<and>
     \<not> list_ex is_verifier_call (ServeHTTP verifyToken r)"
  by (simp add: ServeHTTP_def)

theorem ServeHTTP_unknown_rejected_witness:
  "getRequestAuthType basic_get = authTypeUnknown \<and>
   ServeHTTP accept_token basic_get
     = [Call_writeErrorResponse SignatureVersionNotSupported ''/bucket/object''] \<and>
   \<not> list_ex is_forward (ServeHTTP accept_token basic_get) \<and>
   \<not> list_ex is_verifier_call (ServeHTTP accept_token basic_get)"
proof -
  have p: "Path (Url basic_get) = ''/bucket/object''"
    by (simp add: basic_get_def)
  from ServeHTTP_unknown_rejected [OF classify_basic_get, of accept_token] p classify_basic_get
  show ?thesis
    by simp
qed

text \<open>
  Claim C5. For every request classified \<open>authTypeAnonymous\<close>, \<open>authTypePresigned\<close>,
  \<open>authTypeSigned\<close> or \<open>authTypePostPolicy\<close>, \<open>ServeHTTP\<close> makes one call only, to the
  downstream handler with the request, whatever the token verifier would answer and with no
  call on a verifier; and for every request, whatever its classification, the downstream
  handler is called at most once.
\<close>

theorem ServeHTTP_pass_through:
  "(getRequestAuthType r = authTypeAnonymous \<or> getRequestAuthType r = authTypePresigned \<or>
    getRequestAuthType r = authTypeSigned \<or> getRequestAuthType r = authTypePostPolicy
      \<longrightarrow> ServeHTTP verifyToken r = [Call_handler_ServeHTTP r] \<and>
          length (filter is_forward (ServeHTTP verifyToken r)) = 1 \<and>
          \<not> list_ex is_verifier_call (ServeHTTP verifyToken r)) \<and>
   length (filter is_forward (ServeHTTP verifyToken r)) \<le> 1"
  by (cases "getRequestAuthType r") (simp_all add: ServeHTTP_def)

theorem ServeHTTP_pass_through_witness:
  "getRequestAuthType plain_get = authTypeAnonymous \<and>
   getRequestAuthType presigned_get = authTypePresigned \<and>
   getRequestAuthType signed_put = authTypeSigned \<and>
   getRequestAuthType form_post = authTypePostPolicy \<and>
   ServeHTTP reject_token plain_get = [Call_handler_ServeHTTP plain_get] \<and>
   ServeHTTP reject_token presigned_get = [Call_handler_ServeHTTP presigned_get] \<and>
   ServeHTTP reject_token signed_put = [Call_handler_ServeHTTP signed_put] \<and>
   ServeHTTP reject_token form_post = [Call_handler_ServeHTTP form_post] \<and>
   length (filter is_forward (ServeHTTP reject_token bearer_get)) \<le> 1"
proof -
  from ServeHTTP_pass_through [of plain_get reject_token] classify_plain_get
  have a: "ServeHTTP reject_token plain_get = [Call_handler_ServeHTTP plain_get]"
    by blast
  from ServeHTTP_pass_through [of presigned_get reject_token] classify_presigned_get
  have b: "ServeHTTP reject_token presigned_get = [Call_handler_ServeHTTP presigned_get]"
    by blast
  from ServeHTTP_pass_through [of signed_put reject_token] classify_signed_put
  have c: "ServeHTTP reject_token signed_put = [Call_handler_ServeHTTP signed_put]"
    by blast
  from ServeHTTP_pass_through [of form_post reject_token] classify_form_post
  have d: "ServeHTTP reject_token form_post = [Call_handler_ServeHTTP form_post]"
    by blast
  from ServeHTTP_pass_through [of bearer_get reject_token]
  have e: "length (filter is_forward (ServeHTTP reject_token bearer_get)) \<le> 1"
    by blast
  from a b c d e classify_plain_get classify_presigned_get classify_signed_put
    classify_form_post
  show ?thesis
    by blast
qed

section \<open>Signature verification\<close>

lemma isRequestSignatureV4_signed_put: "isRequestSignatureV4 signed_put"
  by (simp add: signed_put_def isRequestSignatureV4_def signV4Algorithm_def Get_def HasPrefix_def)

lemma not_isRequestSignatureV4_presigned_get: "\<not> isRequestSignatureV4 presigned_get"
  by (simp add: presigned_get_def isRequestSignatureV4_def)

lemma isRequestPresignedSignatureV4_presigned_get: "isRequestPresignedSignatureV4 presigned_get"
  by (simp add: presigned_get_def isRequestPresignedSignatureV4_def)

lemma isSignV4ReqAuthenticated_signed:
  "isRequestSignatureV4 r \<Longrightarrow>
   isSignV4ReqAuthenticated Sum256 EncodeToString sign r =
     (let hint = EncodeToString (Sum256 []);
          t1 = [Call_SetHTTPRequestToVerify r, Call_DoesSignatureMatch hint]
      in case DoesSignatureMatch sign r hint of
           (ok, Some err) \<Rightarrow>
             ((False, InternalError), t1 @ [Call_errorIf ''Signature verification failed.''])
         | (ok, None) \<Rightarrow>
             if ok then ((True, NoneError), t1) else ((False, SignatureDoesNotMatch), t1))"
  by (auto simp: isSignV4ReqAuthenticated_def Let_def split: prod.splits option.splits)

lemma isSignV4ReqAuthenticated_presigned:
  "\<not> isRequestSignatureV4 r \<Longrightarrow> isRequestPresignedSignatureV4 r \<Longrightarrow>
   isSignV4ReqAuthenticated Sum256 EncodeToString sign r =
     (let t1 = [Call_SetHTTPRequestToVerify r, Call_DoesPresignedSignatureMatch]
      in case DoesPresignedSignatureMatch sign r of
           (ok, Some err) \<Rightarrow>
             ((False, InternalError),
              t1 @ [Call_errorIf ''Presigned signature verification failed.''])
         | (ok, None) \<Rightarrow>
             if ok then ((True, NoneError), t1) else ((False, SignatureDoesNotMatch), t1))"
  by (auto simp: isSignV4ReqAuthenticated_def Let_def split: prod.splits option.splits)

lemma isSignV4ReqAuthenticated_neither:
  "\<not> isRequestSignatureV4 r \<Longrightarrow> \<not> isRequestPresignedSignatureV4 r \<Longrightarrow>
   isSignV4ReqAuthenticated Sum256 EncodeToString sign r =
     ((False, AccessDenied), [Call_SetHTTPRequestToVerify r])"
  by (simp add: isSignV4ReqAuthenticated_def)

lemma isSignV4ReqAuthenticated_paired:
  "fst (fst (isSignV4ReqAuthenticated Sum256 EncodeToString sign r)) \<longleftrightarrow>
   snd (fst (isSignV4ReqAuthenticated Sum256 EncodeToString sign r)) = NoneError"
proof (cases "isRequestSignatureV4 r")
  case True
  then show ?thesis
    by (simp add: isSignV4ReqAuthenticated_signed Let_def split: prod.splits option.splits)
next
  case False
  show ?thesis
  proof (cases "isRequestPresignedSignatureV4 r")
    case True
    with False show ?thesis
      by (simp add: isSignV4ReqAuthenticated_presigned Let_def split: prod.splits option.splits)
  next
    case neither: False
    with False show ?thesis
      by (simp add: isSignV4ReqAuthenticated_neither)
  qed
qed

text \<open>
  Claim C8. Every outcome of \<open>isSignV4ReqAuthenticated\<close> pairs \<open>matched = false\<close> with an error
  code other than \<open>NoneError\<close>, and \<open>matched = true\<close> with \<open>NoneError\<close>. On the signed path and
  on the presigned path, a verifier call that returns an error yields
  \<open>(false, InternalError)\<close>, and one that returns no error and no match yields
  \<open>(false, SignatureDoesNotMatch)\<close>.
\<close>

theorem isSignV4ReqAuthenticated_outcome:
  "(\<not> fst (fst (isSignV4ReqAuthenticated Sum256 EncodeToString sign r))
      \<longrightarrow> snd (fst (isSignV4ReqAuthenticated Sum256 EncodeToString sign r)) \<noteq> NoneError) \<and>
   (fst (fst (isSignV4ReqAuthenticated Sum256 EncodeToString sign r))
      \<longrightarrow> snd (fst (isSignV4ReqAuthenticated Sum256 EncodeToString sign r)) = NoneError) \<and>
   (isRequestSignatureV4 r \<and>
    snd (DoesSignatureMatch sign r (EncodeToString (Sum256 []))) \<noteq> None
      \<longrightarrow> fst (isSignV4ReqAuthenticated Sum256 EncodeToString sign r) = (False, InternalError)) \<and>
   (isRequestSignatureV4 r \<and>
    DoesSignatureMatch sign r (EncodeToString (Sum256 [])) = (False, None)
      \<longrightarrow> fst (isSignV4ReqAuthenticated Sum256 EncodeToString sign r)
            = (False, SignatureDoesNotMatch)) \<and>
   (\<not> isRequestSignatureV4 r \<and> isRequestPresignedSignatureV4 r \<and>
    snd (DoesPresignedSignatureMatch sign r) \<noteq> None
      \<longrightarrow> fst (isSignV4ReqAuthenticated Sum256 EncodeToString sign r) = (False, InternalError)) \<and>
   (\<not> isRequestSignatureV4 r \<and> isRequestPresignedSignatureV4 r \<and>
    DoesPresignedSignatureMatch sign r = (False, None)
      \<longrightarrow> fst (isSignV4ReqAuthenticated Sum256 EncodeToString sign r)
            = (False, SignatureDoesNotMatch))"
proof (intro conjI impI)
  assume "\<not> fst (fst (isSignV4ReqAuthenticated Sum256 EncodeToString sign r))"
  then show "snd (fst (isSignV4ReqAuthenticated Sum256 EncodeToString sign r)) \<noteq> NoneError"
    by (simp add: isSignV4ReqAuthenticated_paired)
next
  assume "fst (fst (isSignV4ReqAuthenticated Sum256 EncodeToString sign r))"
  then show "snd (fst (isSignV4ReqAuthenticated Sum256 EncodeToString sign r)) = NoneError"
    by (simp add: isSignV4ReqAuthenticated_paired)
next
  assume "isRequestSignatureV4 r \<and>
          snd (DoesSignatureMatch sign r (EncodeToString (Sum256 []))) \<noteq> None"
  then show "fst (isSignV4ReqAuthenticated Sum256 EncodeToString sign r) = (False, InternalError)"
    by (auto simp: isSignV4ReqAuthenticated_signed Let_def split: prod.splits option.splits)
next
  assume "isRequestSignatureV4 r \<and>
          DoesSignatureMatch sign r (EncodeToString (Sum256 [])) = (False, None)"
  then show "fst (isSignV4ReqAuthenticated Sum256 EncodeToString sign r)
               = (False, SignatureDoesNotMatch)"
    by (simp add: isSignV4ReqAuthenticated_signed Let_def)
next
  assume "\<not> isRequestSignatureV4 r \<and> isRequestPresignedSignatureV4 r \<and>
          snd (DoesPresignedSignatureMatch sign r) \<noteq> None"
  then show "fst (isSignV4ReqAuthenticated Sum256 EncodeToString sign r) = (False, InternalError)"
    by (auto simp: isSignV4ReqAuthenticated_presigned Let_def split: prod.splits option.splits)
next
  assume "\<not> isRequestSignatureV4 r \<and> isRequestPresignedSignatureV4 r \<and>
          DoesPresignedSignatureMatch sign r = (False, None)"
  then show "fst (isSignV4ReqAuthenticated Sum256 EncodeToString sign r)
               = (False, SignatureDoesNotMatch)"
    by (simp add: isSignV4ReqAuthenticated_presigned Let_def)
qed

theorem isSignV4ReqAuthenticated_outcome_witness:
  "fst (isSignV4ReqAuthenticated sum_stub hex_stub (const_sign (False, Some ''broken'')) signed_put)
     = (False, InternalError) \<and>
   fst (isSignV4ReqAuthenticated sum_stub hex_stub (const_sign (False, None)) signed_put)
     = (False, SignatureDoesNotMatch) \<and>
   fst (isSignV4ReqAuthenticated sum_stub hex_stub (const_sign (False, Some ''broken'')) presigned_get)
     = (False, InternalError) \<and>
   fst (isSignV4ReqAuthenticated sum_stub hex_stub (const_sign (False, None)) presigned_get)
     = (False, SignatureDoesNotMatch) \<and>
   fst (fst (isSignV4ReqAuthenticated sum_stub hex_stub (const_sign (True, None)) signed_put)) \<and>
   snd (fst (isSignV4ReqAuthenticated sum_stub hex_stub (const_sign (True, None)) signed_put))
     = NoneError"
proof -
  note s = isRequestSignatureV4_signed_put
  note n = not_isRequestSignatureV4_presigned_get
  note p = isRequestPresignedSignatureV4_presigned_get
  have e1: "snd (DoesSignatureMatch (const_sign (False, Some ''broken'')) signed_put
              (hex_stub (sum_stub []))) \<noteq> None"
    by (simp add: const_sign_def)
  have e2: "DoesSignatureMatch (const_sign (False, None :: string option)) signed_put
              (hex_stub (sum_stub [])) = (False, None)"
    by (simp add: const_sign_def)
  have e3: "snd (DoesPresignedSignatureMatch (const_sign (False, Some ''broken'')) presigned_get)
              \<noteq> None"
    by (simp add: const_sign_def)
  have e4: "DoesPresignedSignatureMatch (const_sign (False, None :: string option)) presigned_get
              = (False, None)"
    by (simp add: const_sign_def)
  have e5: "fst (fst (isSignV4ReqAuthenticated sum_stub hex_stub (const_sign (True, None))
              signed_put))"
    by (simp add: isSignV4ReqAuthenticated_signed [OF s] const_sign_def)
  from s e1
    isSignV4ReqAuthenticated_outcome
      [of sum_stub hex_stub "const_sign (False, Some ''broken'')" signed_put]
  have a: "fst (isSignV4ReqAuthenticated sum_stub hex_stub (const_sign (False, Some ''broken''))
             signed_put) = (False, InternalError)"
    by blast
  from s e2
    isSignV4ReqAuthenticated_outcome [of sum_stub hex_stub "const_sign (False, None)" signed_put]
  have b: "fst (isSignV4ReqAuthenticated sum_stub hex_stub (const_sign (False, None)) signed_put)
             = (False, SignatureDoesNotMatch)"
    by blast
  from n p e3
    isSignV4ReqAuthenticated_outcome
      [of sum_stub hex_stub "const_sign (False, Some ''broken'')" presigned_get]
  have c: "fst (isSignV4ReqAuthenticated sum_stub hex_stub (const_sign (False, Some ''broken''))
             presigned_get) = (False, InternalError)"
    by blast
  from n p e4
    isSignV4ReqAuthenticated_outcome
      [of sum_stub hex_stub "const_sign (False, None)" presigned_get]
  have d: "fst (isSignV4ReqAuthenticated sum_stub hex_stub (const_sign (False, None))
             presigned_get) = (False, SignatureDoesNotMatch)"
    by blast
  from e5
    isSignV4ReqAuthenticated_outcome [of sum_stub hex_stub "const_sign (True, None)" signed_put]
  have f: "snd (fst (isSignV4ReqAuthenticated sum_stub hex_stub (const_sign (True, None))
             signed_put)) = NoneError"
    by blast
  from a b c d e5 f show ?thesis
    by blast
qed

text \<open>
  Claim C9. On the signed path (the request has the V4 signature header), the run of
  \<open>isSignV4ReqAuthenticated\<close> hands \<^verbatim>\<open>DoesSignatureMatch\<close> exactly one payload hash, the
  hex encoding of the SHA-256 sum of the empty byte string, whatever the request's body is;
  and the returned pair is read off the verifier's answer at that hash.
\<close>

theorem isSignV4ReqAuthenticated_empty_payload_hash:
  "isRequestSignatureV4 r \<Longrightarrow>
     payload_hints (snd (isSignV4ReqAuthenticated Sum256 EncodeToString sign r))
       = [EncodeToString (Sum256 [])] \<and>
     payload_hints (snd (isSignV4ReqAuthenticated Sum256 EncodeToString sign (r\<lparr>Body := b\<rparr>)))
       = [EncodeToString (Sum256 [])] \<and>
     fst (isSignV4ReqAuthenticated Sum256 EncodeToString sign r)
       = (case DoesSignatureMatch sign r (EncodeToString (Sum256 [])) of
            (ok, Some err) \<Rightarrow> (False, InternalError)
          | (ok, None) \<Rightarrow> if ok then (True, NoneError) else (False, SignatureDoesNotMatch))"
proof -
  assume s: "isRequestSignatureV4 r"
  have "isRequestSignatureV4 (r\<lparr>Body := b\<rparr>) = isRequestSignatureV4 r"
    by (simp add: isRequestSignatureV4_def)
  with s have sb: "isRequestSignatureV4 (r\<lparr>Body := b\<rparr>)"
    by simp
  have one: "payload_hints (snd (isSignV4ReqAuthenticated Sum256 EncodeToString sign q))
               = [EncodeToString (Sum256 [])]" if "isRequestSignatureV4 q" for q
    using that
    by (simp add: isSignV4ReqAuthenticated_signed Let_def split: prod.splits option.splits)
  have res: "fst (isSignV4ReqAuthenticated Sum256 EncodeToString sign r)
               = (case DoesSignatureMatch sign r (EncodeToString (Sum256 [])) of
                    (ok, Some err) \<Rightarrow> (False, InternalError)
                  | (ok, None) \<Rightarrow>
                      if ok then (True, NoneError) else (False, SignatureDoesNotMatch))"
    using s
    by (simp add: isSignV4ReqAuthenticated_signed Let_def split: prod.splits option.splits)
  from one [OF s] one [OF sb] res show ?thesis
    by blast
qed

theorem isSignV4ReqAuthenticated_empty_payload_hash_witness:
  "isRequestSignatureV4 signed_put \<and>
   Body signed_put = ''not the empty payload'' \<and>
   payload_hints (snd (isSignV4ReqAuthenticated sum_stub hex_stub (const_sign (True, None))
     signed_put)) = [''hex:digest:''] \<and>
   payload_hints (snd (isSignV4ReqAuthenticated sum_stub hex_stub (const_sign (True, None))
     (signed_put\<lparr>Body := ''another body''\<rparr>))) = [''hex:digest:''] \<and>
   fst (isSignV4ReqAuthenticated sum_stub hex_stub (const_sign (True, None)) signed_put)
     = (True, NoneError)"
proof -
  have b: "Body signed_put = ''not the empty payload''"
    by (simp add: signed_put_def)
  have h: "hex_stub (sum_stub []) = ''hex:digest:''"
    by (simp add: hex_stub_def sum_stub_def)
  have v: "DoesSignatureMatch (const_sign (True, None :: string option)) signed_put
             ''hex:digest:'' = (True, None)"
    by (simp add: const_sign_def)
  from isSignV4ReqAuthenticated_empty_payload_hash
    [OF isRequestSignatureV4_signed_put, of sum_stub hex_stub "const_sign (True, None)"
      "''another body''"]
    h b v isRequestSignatureV4_signed_put
  show ?thesis
    by simp
qed

text \<open>
  Claim C10. For every request that has neither the V4 signature header nor the presigned
  query parameter, \<open>isSignV4ReqAuthenticated\<close> returns \<open>(false, AccessDenied)\<close> and calls
  neither \<^verbatim>\<open>DoesSignatureMatch\<close> nor \<^verbatim>\<open>DoesPresignedSignatureMatch\<close>: its only call is
  \<^verbatim>\<open>SetHTTPRequestToVerify\<close>.
\<close>

theorem isSignV4ReqAuthenticated_access_denied:
  "\<not> isRequestSignatureV4 r \<Longrightarrow> \<not> isRequestPresignedSignatureV4 r \<Longrightarrow>
     fst (isSignV4ReqAuthenticated Sum256 EncodeToString sign r) = (False, AccessDenied) \<and>
     snd (isSignV4ReqAuthenticated Sum256 EncodeToString sign r)
       = [Call_SetHTTPRequestToVerify r] \<and>
     \<not> list_ex is_signature_match_call
         (snd (isSignV4ReqAuthenticated Sum256 EncodeToString sign r))"
  by (simp add: isSignV4ReqAuthenticated_neither)

theorem isSignV4ReqAuthenticated_access_denied_witness:
  "\<not> isRequestSignatureV4 bearer_get \<and> \<not> isRequestPresignedSignatureV4 bearer_get \<and>
   fst (isSignV4ReqAuthenticated sum_stub hex_stub (const_sign (True, None)) bearer_get)
     = (False, AccessDenied) \<and>
   snd (isSignV4ReqAuthenticated sum_stub hex_stub (const_sign (True, None)) bearer_get)
     = [Call_SetHTTPRequestToVerify bearer_get]"
proof -
  have n1: "\<not> isRequestSignatureV4 bearer_get"
    by (simp add: bearer_get_def isRequestSignatureV4_def signV4Algorithm_def Get_def
        HasPrefix_def)
  have n2: "\<not> isRequestPresignedSignatureV4 bearer_get"
    by (simp add: bearer_get_def isRequestPresignedSignatureV4_def)
  from n1 n2
    isSignV4ReqAuthenticated_access_denied
      [OF n1 n2, of sum_stub hex_stub "const_sign (True, None)"]
  show ?thesis
    by blast
qed

end
